theory Spec2Isabelle
  imports Main "HOL-Library.Word"
begin

section \<open>The shell of \<^verbatim>\<open>shell.c\<close> as one process in an explicit world\<close>

text \<open>
  The program is a C command interpreter: a read loop, five builtins, a launcher that
  forks and execs, and redirection of descriptors 0 and 1. Everything it does goes
  through the operating system, so the embedding follows one process and threads a
  record \<open>world\<close> through every call: the shell's global variables, the part of the
  kernel state the code reads or writes (descriptor table, working directory,
  unreaped children, the terminal's foreground group, \<open>errno\<close>), the answers of the
  environment that the code cannot compute (file system, outcome of \<open>fork\<close>, order in
  which children end), and the trace of every call made, in program order.

  A character array is modelled by its size and the string it holds: a \<open>strcpy\<close> or
  \<open>strcat\<close> that would write past the end of the array is undefined behaviour, like
  every read through a null pointer. Not modelled: the buffering of \<open>stdout\<close> (text is
  written when \<open>fprintf\<close> is called), and the race between the parent's \<open>tcsetpgrp\<close>
  and the child's \<open>setpgid\<close>.
\<close>

subsection \<open>Values of the C library and the kernel\<close>

type_synonym size_t = "64 word"
type_synonym tokens = "string list"
type_synonym argv = "string option list"

datatype errno = ENONE | EPERM | ENOENT | EBADF | ECHILD | EAGAIN | EACCES | EFAULT | ENOTDIR
  | EINVAL | EMFILE | ENOTTY | ERANGE

text \<open>The texts glibc prints for these error numbers; \<open>ENONE\<close> is the value 0 of a fresh process.\<close>

fun strerror :: "errno \<Rightarrow> string" where
  "strerror ENONE = ''Success''"
| "strerror EPERM = ''Operation not permitted''"
| "strerror ENOENT = ''No such file or directory''"
| "strerror EBADF = ''Bad file descriptor''"
| "strerror ECHILD = ''No child processes''"
| "strerror EAGAIN = ''Resource temporarily unavailable''"
| "strerror EACCES = ''Permission denied''"
| "strerror EFAULT = ''Bad address''"
| "strerror ENOTDIR = ''Not a directory''"
| "strerror EINVAL = ''Invalid argument''"
| "strerror EMFILE = ''Too many open files''"
| "strerror ENOTTY = ''Inappropriate ioctl for device''"
| "strerror ERANGE = ''Numerical result out of range''"

datatype signal = SIGINT | SIGQUIT | SIGKILL | SIGTERM | SIGTSTP | SIGCONT | SIGTTIN | SIGTTOU

datatype handler = SIG_DFL | SIG_IGN

datatype open_mode = Read_mode | Write_mode

text \<open>What a descriptor refers to: the terminal, or a file opened by \<open>fopen\<close>.\<close>

datatype ofile = Terminal | Opened string open_mode

text \<open>
  \<open>fork\<close> returns twice; the model follows one of the two processes. The environment
  says which: the call failed, or this process is now the child (with its new pid), or
  it is the parent (with the child's pid). The world lists the outcomes of the coming
  calls (\<open>fork_results\<close>); when the list is used up, \<open>fork\<close> fails.
\<close>

datatype fork_outcome = Fork_failed | In_child int | In_parent int

datatype event =
    Fork int
  | Setpgid int int
  | Signal signal handler
  | Execv string argv "errno option"
  | Print "ofile option" string
  | Prompt "ofile option" int
  | Tcsetpgrp int int
  | Wait int
  | Fopen string open_mode "int option"
  | Dup int int
  | Dup2 int int int
  | Chdir "string option" "errno option"
  | Getcwd
  | Kill int signal

text \<open>
  How the current process stops running the shell's code: \<open>exit\<close>, a successful
  \<open>execv\<close> (the program image is replaced), or undefined behaviour of C (a null
  pointer handed to a library function that reads through it, signed overflow).
\<close>

datatype halt = Exited int | Replaced string argv | Undefined string

record world =
  shell_is_interactive :: bool
  shell_terminal :: int
  shell_pgid :: int
  num_bprocesses :: int
  pid :: int
  pgrp :: int
  errno :: errno
  cwd :: string
  fds :: "int \<Rightarrow> ofile option"
  fd_limit :: nat
  children :: "int list"
  tty_fg :: int
  disposition :: "signal \<Rightarrow> handler"
  environ_PATH :: "string option"
  trace :: "event list"
  fork_results :: "fork_outcome list"
  wait_order :: "nat list"
  resume_fg :: "int list"
  can_exec :: "string \<Rightarrow> errno option"
  can_open :: "string \<Rightarrow> open_mode \<Rightarrow> errno option"
  can_chdir :: "string \<Rightarrow> string \<Rightarrow> errno + string"
  getcwd_error :: "errno option"

datatype 'a result = Return (val: 'a) (after: world) | Halt (reason: halt) (after: world)

definition INT_MAX :: int where
  "INT_MAX = 2147483647"

subsection \<open>Library calls\<close>

definition emit :: "event \<Rightarrow> world \<Rightarrow> world" where
  "emit e w = w\<lparr>trace := trace w @ [e]\<rparr>"

text \<open>\<open>strcmp\<close>: zero exactly on equal strings, else the difference of the first bytes that differ.\<close>

fun strcmp :: "string \<Rightarrow> string \<Rightarrow> int" where
  "strcmp [] [] = 0"
| "strcmp [] (y # ys) = - 1"
| "strcmp (x # xs) [] = 1"
| "strcmp (x # xs) (y # ys) =
     (if x = y then strcmp xs ys else int (of_char x) - int (of_char y))"

text \<open>\<open>fprintf(stdout, ...)\<close>: the text goes to whatever descriptor 1 refers to at the call.\<close>

definition fprintf_stdout :: "string \<Rightarrow> world \<Rightarrow> world" where
  "fprintf_stdout s w = emit (Print (fds w 1) s) w"

definition getpid :: "world \<Rightarrow> int" where
  "getpid w = pid w"

definition getpgrp :: "world \<Rightarrow> int" where
  "getpgrp w = pgrp w"

text \<open>\<open>setpgid(p, g)\<close> as the child calls it, on itself.\<close>

definition setpgid :: "int \<Rightarrow> int \<Rightarrow> world \<Rightarrow> world" where
  "setpgid p g w = emit (Setpgid p g) (if p = pid w then w\<lparr>pgrp := g\<rparr> else w)"

text \<open>\<open>signal\<close>: the disposition of SIGKILL cannot be changed; the call fails with EINVAL.\<close>

definition signal :: "signal \<Rightarrow> handler \<Rightarrow> world \<Rightarrow> world" where
  "signal s h w =
     emit (Signal s h)
       (if s = SIGKILL then w\<lparr>errno := EINVAL\<rparr>
        else w\<lparr>disposition := (disposition w)(s := h)\<rparr>)"

definition job_signals :: "signal list" where
  "job_signals = [SIGINT, SIGQUIT, SIGKILL, SIGTERM, SIGTSTP, SIGCONT, SIGTTIN, SIGTTOU]"

definition signals :: "handler \<Rightarrow> world \<Rightarrow> world" where
  "signals h w = foldl (\<lambda>w' s. signal s h w') w job_signals"

definition fork :: "world \<Rightarrow> int \<times> world" where
  "fork w =
     (case fork_results w of
        [] \<Rightarrow> (- 1, emit (Fork (- 1)) (w\<lparr>errno := EAGAIN\<rparr>))
      | Fork_failed # rs \<Rightarrow> (- 1, emit (Fork (- 1)) (w\<lparr>errno := EAGAIN, fork_results := rs\<rparr>))
      | In_child me # rs \<Rightarrow>
          (0, emit (Fork 0) (w\<lparr>pid := me, children := [], fork_results := rs\<rparr>))
      | In_parent c # rs \<Rightarrow>
          (c, emit (Fork c) (w\<lparr>children := children w @ [c], fork_results := rs\<rparr>)))"

text \<open>
  \<open>execv\<close> returns only when it fails, with \<open>- 1\<close> and \<open>errno\<close> set; when it succeeds
  the process no longer runs the shell.
\<close>

definition execv :: "string \<Rightarrow> argv \<Rightarrow> world \<Rightarrow> int result" where
  "execv path av w =
     (case can_exec w path of
        None \<Rightarrow> Halt (Replaced path av) (emit (Execv path av None) w)
      | Some e \<Rightarrow> Return (- 1) (emit (Execv path av (Some e)) (w\<lparr>errno := e\<rparr>)))"

text \<open>
  \<open>wait(NULL)\<close> reports one child of the caller that has ended, whichever ends first:
  the environment picks it among the unreaped children (\<open>wait_order\<close>). With no child
  it fails at once with ECHILD. The model takes every child to end eventually, so the
  call returns.
\<close>

definition wait_any :: "world \<Rightarrow> int \<times> world" where
  "wait_any w =
     (case children w of
        [] \<Rightarrow> (- 1, emit (Wait (- 1)) (w\<lparr>errno := ECHILD\<rparr>))
      | c # cs \<Rightarrow>
          (let k = (case wait_order w of [] \<Rightarrow> 0 | k # _ \<Rightarrow> k mod length (c # cs));
               p = (c # cs) ! k
           in (p, emit (Wait p) (w\<lparr>children := remove1 p (c # cs), wait_order := tl (wait_order w)\<rparr>))))"

text \<open>
  \<open>tcsetpgrp(fd, g)\<close> makes \<open>g\<close> the foreground group when \<open>fd\<close> is the terminal, and
  fails with ENOTTY otherwise. Whether a group \<open>g\<close> exists in the session is not checked.
\<close>

definition tcsetpgrp :: "int \<Rightarrow> int \<Rightarrow> world \<Rightarrow> world" where
  "tcsetpgrp fd g w =
     emit (Tcsetpgrp fd g)
       (if fds w fd = Some Terminal then w\<lparr>tty_fg := g\<rparr> else w\<lparr>errno := ENOTTY\<rparr>)"

definition lowest_free :: "world \<Rightarrow> nat option" where
  "lowest_free w = find (\<lambda>n. fds w (int n) = None) [0..<fd_limit w]"

text \<open>\<open>fopen\<close>: a \<open>FILE *\<close> is the descriptor it wraps, or \<open>None\<close> for the null pointer.\<close>

definition fopen :: "string \<Rightarrow> open_mode \<Rightarrow> world \<Rightarrow> int option \<times> world" where
  "fopen name m w =
     (case can_open w name m of
        Some e \<Rightarrow> (None, emit (Fopen name m None) (w\<lparr>errno := e\<rparr>))
      | None \<Rightarrow>
          (case lowest_free w of
             None \<Rightarrow> (None, emit (Fopen name m None) (w\<lparr>errno := EMFILE\<rparr>))
           | Some n \<Rightarrow>
               (Some (int n),
                emit (Fopen name m (Some (int n))) (w\<lparr>fds := (fds w)(int n := Some (Opened name m))\<rparr>))))"

definition dup :: "int \<Rightarrow> world \<Rightarrow> int \<times> world" where
  "dup fd w =
     (if fds w fd = None then (- 1, emit (Dup fd (- 1)) (w\<lparr>errno := EBADF\<rparr>))
      else case lowest_free w of
             None \<Rightarrow> (- 1, emit (Dup fd (- 1)) (w\<lparr>errno := EMFILE\<rparr>))
           | Some n \<Rightarrow> (int n, emit (Dup fd (int n)) (w\<lparr>fds := (fds w)(int n := fds w fd)\<rparr>)))"

definition dup2 :: "int \<Rightarrow> int \<Rightarrow> world \<Rightarrow> world" where
  "dup2 old new w =
     (if fds w old = None then emit (Dup2 old new (- 1)) (w\<lparr>errno := EBADF\<rparr>)
      else emit (Dup2 old new new) (w\<lparr>fds := (fds w)(new := fds w old)\<rparr>))"

text \<open>\<open>chdir\<close>: the file system decides; a failed call leaves the working directory as it was.\<close>

definition chdir :: "string option \<Rightarrow> world \<Rightarrow> int \<times> world" where
  "chdir path w =
     (case path of
        None \<Rightarrow> (- 1, emit (Chdir None (Some EFAULT)) (w\<lparr>errno := EFAULT\<rparr>))
      | Some p \<Rightarrow>
          (case can_chdir w (cwd w) p of
             Inl e \<Rightarrow> (- 1, emit (Chdir (Some p) (Some e)) (w\<lparr>errno := e\<rparr>))
           | Inr d \<Rightarrow> (0, emit (Chdir (Some p) None) (w\<lparr>cwd := d\<rparr>))))"

definition getcwd :: "world \<Rightarrow> string option \<times> world" where
  "getcwd w =
     (case getcwd_error w of
        Some e \<Rightarrow> (None, emit Getcwd (w\<lparr>errno := e\<rparr>))
      | None \<Rightarrow> (Some (cwd w), emit Getcwd w))"

text \<open>
  \<open>strtok(s, delim)\<close> on the string still to be scanned: skip delimiters, return the
  token up to the next delimiter and the rest after that delimiter; \<open>None\<close> when only
  delimiters are left. It writes a terminator over the delimiter that ends the token:
  after the first call the scanned string reads as \<open>strtok_cut s delim\<close>.
\<close>

definition strtok :: "string \<Rightarrow> string \<Rightarrow> (string \<times> string) option" where
  "strtok s delim =
     (let s1 = dropWhile (\<lambda>c. c \<in> set delim) s
      in if s1 = [] then None
         else Some (takeWhile (\<lambda>c. c \<notin> set delim) s1,
                    drop 1 (dropWhile (\<lambda>c. c \<notin> set delim) s1)))"

definition strtok_cut :: "string \<Rightarrow> string \<Rightarrow> string" where
  "strtok_cut s delim =
     takeWhile (\<lambda>c. c \<in> set delim) s @
     takeWhile (\<lambda>c. c \<notin> set delim) (dropWhile (\<lambda>c. c \<in> set delim) s)"

text \<open>
  \<open>strcpy(dest, src)\<close> into an array of \<open>n\<close> bytes writes the bytes of \<open>src\<close> and a
  terminator; \<open>strcat(dest, src)\<close> writes the bytes of \<open>src\<close> and a terminator after the
  string \<open>dest\<close> holds. The result is the string the array holds afterwards, or \<open>None\<close>
  when the call writes past the end of the array.
\<close>

definition strcpy :: "nat \<Rightarrow> string \<Rightarrow> string option" where
  "strcpy n src = (if length src + 1 \<le> n then Some src else None)"

definition strcat :: "nat \<Rightarrow> string \<Rightarrow> string \<Rightarrow> string option" where
  "strcat n dest src = (if length dest + length src + 1 \<le> n then Some (dest @ src) else None)"

subsection \<open>The tokenizer's interface\<close>

text \<open>
  Modelled from the spec: \<^verbatim>\<open>tokenizer.h\<close> and its implementation are not part of the
  sources. The spec gives \<open>length(seq) -> n\<close> and
  \<open>token(seq, i) -> string | absent-if-out-of-range\<close>; the index is a \<open>size_t\<close>.
\<close>

definition tokens_get_length :: "tokens \<Rightarrow> size_t" where
  "tokens_get_length ts = of_nat (length ts)"

definition tokens_get_token :: "tokens \<Rightarrow> size_t \<Rightarrow> string option" where
  "tokens_get_token ts n = (if unat n < length ts then Some (ts ! unat n) else None)"

subsection \<open>The builtin table (\<^verbatim>\<open>shell.c\<close>, lines 33 to 56)\<close>

text \<open>The function pointers of the table are the five names; \<open>call_cmd\<close> below calls through one.\<close>

datatype cmd_fun = Cmd_help | Cmd_exit | Cmd_pwd | Cmd_cd | Cmd_wait

record fun_desc =
  "fun" :: cmd_fun
  cmd :: string
  doc :: string

definition cmd_table :: "fun_desc list" where
  "cmd_table =
     [\<lparr>fun = Cmd_help, cmd = ''?'', doc = ''show this help menu''\<rparr>,
      \<lparr>fun = Cmd_exit, cmd = ''exit'', doc = ''exit the command shell''\<rparr>,
      \<lparr>fun = Cmd_pwd, cmd = ''pwd'', doc = ''prints current working directory''\<rparr>,
      \<lparr>fun = Cmd_cd, cmd = ''cd'', doc = ''changes current working directory''\<rparr>,
      \<lparr>fun = Cmd_wait, cmd = ''wait'', doc = ''waits for all processes in background to finish''\<rparr>]"

subsection \<open>The builtins (lines 58 to 102)\<close>

definition cmd_help :: "tokens \<Rightarrow> world \<Rightarrow> int result" where
  "cmd_help ts w =
     Return 1 (foldl (\<lambda>w' d. fprintf_stdout (cmd d @ '' - '' @ doc d @ ''\<newline>'') w') w cmd_table)"

definition cmd_exit :: "tokens \<Rightarrow> world \<Rightarrow> int result" where
  "cmd_exit ts w = Halt (Exited 0) w"

definition cmd_pwd :: "tokens \<Rightarrow> world \<Rightarrow> int result" where
  "cmd_pwd ts w =
     (case getcwd w of
        (Some buf, w1) \<Rightarrow> Return 1 (fprintf_stdout (buf @ ''\<newline>'') w1)
      | (None, w1) \<Rightarrow>
          Return 1 (fprintf_stdout (''getcwd error: '' @ strerror (errno w1) @ ''\<newline>'') w1))"

definition cmd_cd :: "tokens \<Rightarrow> world \<Rightarrow> int result" where
  "cmd_cd ts w =
     (let line_size = tokens_get_length ts
      in if line_size = 1 then Return 0 (fprintf_stdout (''cd error: no arguments\<newline>'') w)
         else
           (let path = tokens_get_token ts 1
            in case chdir path w of
                 (r, w1) \<Rightarrow>
                   if r = - 1
                   then Return 1 (fprintf_stdout (''chdir error: '' @ strerror (errno w1) @ ''\<newline>'') w1)
                   else Return 1 w1))"

text \<open>The loop of \<open>cmd_wait\<close>: one \<open>wait(NULL)\<close>, then one decrement, while the counter is positive.\<close>

function wait_loop :: "world \<Rightarrow> world" where
  "wait_loop w =
     (if num_bprocesses w > 0
      then (case wait_any w of (r, w1) \<Rightarrow> wait_loop (w1\<lparr>num_bprocesses := num_bprocesses w1 - 1\<rparr>))
      else w)"
  by pat_completeness auto

termination wait_loop
  by (relation "measure (\<lambda>w. nat (num_bprocesses w))")
     (auto simp: wait_any_def emit_def Let_def split: list.splits)

declare wait_loop.simps [simp del]

definition cmd_wait :: "tokens \<Rightarrow> world \<Rightarrow> int result" where
  "cmd_wait ts w = Return 1 (wait_loop w)"

definition call_cmd :: "cmd_fun \<Rightarrow> tokens \<Rightarrow> world \<Rightarrow> int result" where
  "call_cmd f ts w =
     (case f of
        Cmd_help \<Rightarrow> cmd_help ts w
      | Cmd_exit \<Rightarrow> cmd_exit ts w
      | Cmd_pwd \<Rightarrow> cmd_pwd ts w
      | Cmd_cd \<Rightarrow> cmd_cd ts w
      | Cmd_wait \<Rightarrow> cmd_wait ts w)"

subsection \<open>The launcher \<open>exec_func\<close> (lines 104 to 170)\<close>

text \<open>
  Lines 123 to 133: the array \<open>argv\<close> has \<open>arg_len + 1\<close> entries, the tokens below
  \<open>arg_len\<close> and a final null pointer. \<open>arg_len\<close> is a \<open>size_t\<close>: the subtraction wraps.
\<close>

definition build_argv :: "tokens \<Rightarrow> string option \<Rightarrow> argv" where
  "build_argv ts redirect_check =
     (let arg_len0 = tokens_get_length ts;
          arg_len =
            (if (case redirect_check of
                   None \<Rightarrow> False
                 | Some r \<Rightarrow> strcmp r ''>'' = 0 \<or> strcmp r ''<'' = 0)
             then arg_len0 - 2 else arg_len0)
      in map (\<lambda>i. tokens_get_token ts (of_nat i)) [0..<unat arg_len] @ [None])"

text \<open>
  Lines 147 to 154, the three arrays of one round of the search: \<open>token_cpy\<close> of
  \<open>strlen(tokens)\<close> bytes, \<open>temp2\<close> of \<open>strlen(token_cpy) + 1\<close> bytes and \<open>full_path\<close>
  of \<open>strlen(temp2) + strlen(path)\<close> bytes, filled by \<open>strcpy\<close> and \<open>strcat\<close>. The result
  is the string handed to \<open>execv\<close>, or the write that went past the end of its array.
\<close>

definition full_path :: "string \<Rightarrow> string \<Rightarrow> string + string" where
  "full_path tokens path =
     (case strcpy (length tokens) tokens of
        None \<Rightarrow> Inl ''strcpy past the end of token_cpy''
      | Some token_cpy \<Rightarrow>
          (case strcpy (length token_cpy + 1) token_cpy of
             None \<Rightarrow> Inl ''strcpy past the end of temp2''
           | Some temp2a \<Rightarrow>
               (case strcat (length token_cpy + 1) temp2a ''/'' of
                  None \<Rightarrow> Inl ''strcat past the end of temp2''
                | Some temp2 \<Rightarrow>
                    (case strcpy (length temp2 + length path) temp2 of
                       None \<Rightarrow> Inl ''strcpy past the end of full_path''
                     | Some full_patha \<Rightarrow>
                         (case strcat (length temp2 + length path) full_patha path of
                            None \<Rightarrow> Inl ''strcat past the end of full_path''
                          | Some full_pathb \<Rightarrow> Inr full_pathb)))))"

text \<open>
  Lines 146 to 157: the variable \<open>tokens\<close> of the loop is the result of the last
  \<open>strtok\<close> call, the directory and what is left to scan. Each round builds
  \<open>directory/path\<close> in the arrays, execs it and, when that returns, asks \<open>strtok\<close> for
  the next directory.
\<close>

function path_loop :: "(string \<times> string) option \<Rightarrow> string \<Rightarrow> argv \<Rightarrow> world \<Rightarrow> unit result" where
  "path_loop None path av w = Return () w"
| "path_loop (Some (tok, rest)) path av w =
     (case full_path tok path of
        Inl ub \<Rightarrow> Halt (Undefined ub) w
      | Inr fp \<Rightarrow>
          (case execv fp av w of
             Halt h w1 \<Rightarrow> Halt h w1
           | Return r w1 \<Rightarrow> path_loop (strtok rest '':'') path av w1))"
  by pat_completeness auto

termination path_loop
proof (relation "measure (\<lambda>(t, path, av, w). case t of None \<Rightarrow> 0 | Some (tok, rest) \<Rightarrow> Suc (length rest))", goal_cases)
  case 1
  show ?case by simp
next
  case (2 tok rest path av w fp r w1)
  show ?case
  proof (cases "strtok rest '':''")
    case None
    then show ?thesis by simp
  next
    case (Some tr)
    obtain t r' where tr: "tr = (t, r')" by (cases tr)
    define s1 where "s1 = dropWhile (\<lambda>c. c \<in> set '':'') rest"
    from Some tr have ne: "s1 \<noteq> []" and r': "r' = drop 1 (dropWhile (\<lambda>c. c \<notin> set '':'') s1)"
      by (auto simp: strtok_def s1_def Let_def split: if_splits)
    have "length (dropWhile (\<lambda>c. c \<notin> set '':'') s1) \<le> length s1"
      by (rule length_dropWhile_le)
    with ne r' have "length r' < length s1"
      by (cases s1) auto
    moreover have "length s1 \<le> length rest"
      unfolding s1_def by (rule length_dropWhile_le)
    ultimately show ?thesis using Some tr by simp
  qed
qed

text \<open>The child's side, lines 112 to 159, falling through to \<open>return 1\<close> on line 169.\<close>

definition exec_child :: "tokens \<Rightarrow> string option \<Rightarrow> world \<Rightarrow> int result" where
  "exec_child ts redirect_check w =
     (let g_pid = getpid w;
          w1 = setpgid g_pid g_pid w;
          w2 = signals SIG_DFL w1;
          path = tokens_get_token ts 0;
          av = build_argv ts redirect_check
      in case path of
           None \<Rightarrow> Halt (Undefined ''strncpy from a null pointer'') w2
         | Some p \<Rightarrow>
             if strcmp (take 1 p) ''/'' = 0
             then (case execv p av w2 of
                     Halt h w3 \<Rightarrow> Halt h w3
                   | Return r w3 \<Rightarrow>
                       Return 1
                         (if r = - 1
                          then fprintf_stdout (''execv error: '' @ strerror (errno w3) @ ''\<newline>'') w3
                          else w3))
             else (case environ_PATH w2 of
                     None \<Rightarrow> Halt (Undefined ''strtok on a null pointer'') w2
                   | Some env_path \<Rightarrow>
                       (case path_loop (strtok env_path '':'') p av
                               (w2\<lparr>environ_PATH := Some (strtok_cut env_path '':'')\<rparr>) of
                          Halt h w3 \<Rightarrow> Halt h w3
                        | Return u w3 \<Rightarrow>
                            Return 1
                              (fprintf_stdout (''execv error: '' @ strerror (errno w3) @ ''\<newline>'') w3))))"

text \<open>
  The parent's side, lines 161 to 169. \<open>num_bprocesses++\<close> on an \<open>int\<close> that holds
  \<open>INT_MAX\<close> is undefined in C.
\<close>

definition exec_parent :: "int \<Rightarrow> int \<Rightarrow> world \<Rightarrow> int result" where
  "exec_parent child run_in_fg w =
     (if run_in_fg \<noteq> 0
      then (let w1 = tcsetpgrp 0 child w
            in case wait_any w1 of
                 (r, w2) \<Rightarrow> Return 1 (tcsetpgrp 0 (getpid w2) w2))
      else if num_bprocesses w = INT_MAX then Halt (Undefined ''signed overflow'') w
      else Return 1 (w\<lparr>num_bprocesses := num_bprocesses w + 1\<rparr>))"

definition exec_func :: "tokens \<Rightarrow> string option \<Rightarrow> int \<Rightarrow> world \<Rightarrow> int result" where
  "exec_func ts redirect_check run_in_fg w =
     (case fork w of
        (p, w1) \<Rightarrow>
          if p = - 1 then Return 0 (fprintf_stdout (''fork error\<newline>'') w1)
          else if p = 0 then exec_child ts redirect_check w1
          else exec_parent p run_in_fg w1)"

subsection \<open>\<open>lookup\<close> (lines 172 to 178)\<close>

fun lookup_from :: "nat \<Rightarrow> fun_desc list \<Rightarrow> string option \<Rightarrow> int" where
  "lookup_from i [] c = - 1"
| "lookup_from i (d # ds) c =
     (if (case c of None \<Rightarrow> False | Some s \<Rightarrow> strcmp (cmd d) s = 0) then int i
      else lookup_from (Suc i) ds c)"

definition lookup :: "string option \<Rightarrow> int" where
  "lookup c = lookup_from 0 cmd_table c"

subsection \<open>\<open>init_shell\<close> (lines 180 to 206)\<close>

text \<open>
  The loop of lines 192 and 193 stops the shell with SIGTTIN until the terminal's
  foreground group is the shell's; \<open>resume_fg\<close> lists the foreground group found at
  each later resumption. When the list runs out the shell is never resumed: \<open>None\<close>.
  The saved terminal modes are not modelled.
\<close>

fun foreground_loop :: "int list \<Rightarrow> world \<Rightarrow> world option" where
  "foreground_loop [] w =
     (let w1 = w\<lparr>shell_pgid := getpgrp w\<rparr>
      in if tty_fg w1 \<noteq> shell_pgid w1 then None else Some w1)"
| "foreground_loop (g # gs) w =
     (let w1 = w\<lparr>shell_pgid := getpgrp w\<rparr>
      in if tty_fg w1 \<noteq> shell_pgid w1
         then foreground_loop gs (emit (Kill (- shell_pgid w1) SIGTTIN) (w1\<lparr>tty_fg := g, resume_fg := gs\<rparr>))
         else Some w1)"

definition isatty :: "int \<Rightarrow> world \<Rightarrow> bool" where
  "isatty fd w = (fds w fd = Some Terminal)"

definition init_shell :: "world \<Rightarrow> world option" where
  "init_shell w =
     (let w1 = w\<lparr>shell_terminal := 0\<rparr>;
          w2 = w1\<lparr>shell_is_interactive := isatty (shell_terminal w1) w1\<rparr>
      in if shell_is_interactive w2
         then (case foreground_loop (resume_fg w2) w2 of
                 None \<Rightarrow> None
               | Some w3 \<Rightarrow>
                   (let w4 = w3\<lparr>shell_pgid := getpid w3\<rparr>;
                        w5 = tcsetpgrp (shell_terminal w4) (shell_pgid w4) w4
                    in Some (w5\<lparr>num_bprocesses := 0\<rparr>)))
         else Some (w2\<lparr>num_bprocesses := 0\<rparr>))"

subsection \<open>\<open>main\<close> (lines 208 to 273)\<close>

text \<open>
  One redirection block of \<open>main\<close> (lines 238 to 241, and 244 to 247): open the file,
  save a duplicate of the slot, put the file's descriptor on the slot. \<open>fileno\<close> reads
  through its argument: on a null \<open>FILE *\<close> the behaviour is undefined.
\<close>

definition redirect_slot :: "string option \<Rightarrow> open_mode \<Rightarrow> int \<Rightarrow> world \<Rightarrow> int result" where
  "redirect_slot file_name m slot w =
     (case file_name of
        None \<Rightarrow> Halt (Undefined ''fopen of a null pointer'') w
      | Some name \<Rightarrow>
          (case fopen name m w of
             (file, w1) \<Rightarrow>
               (case dup slot w1 of
                  (saved, w2) \<Rightarrow>
                    (case file of
                       None \<Rightarrow> Halt (Undefined ''fileno of a null pointer'') w2
                     | Some fd \<Rightarrow> Return saved (dup2 fd slot w2)))))"

text \<open>
  Lines 222 to 248. The result is what the rest of the iteration uses:
  \<open>redirect_check\<close>, \<open>run_in_fg\<close>, \<open>std_out\<close> and \<open>std_in\<close>.
\<close>

definition main_redirect :: "tokens \<Rightarrow> world \<Rightarrow> (string option \<times> int \<times> int \<times> int) result" where
  "main_redirect ts w =
     (let w0 = signals SIG_IGN w;
          line_size = tokens_get_length ts;
          redirect_check = tokens_get_token ts (line_size - 2);
          background_check = tokens_get_token ts (line_size - 1)
      in case background_check of
           None \<Rightarrow> Halt (Undefined ''strcmp of a null pointer'') w0
         | Some b \<Rightarrow>
             (let run_in_fg = strcmp b ''&''
              in case (if (case redirect_check of None \<Rightarrow> False | Some r \<Rightarrow> strcmp r ''>'' = 0)
                       then redirect_slot (tokens_get_token ts (line_size - 1)) Write_mode 1 w0
                       else Return 1 w0) of
                   Halt h w1 \<Rightarrow> Halt h w1
                 | Return std_out w1 \<Rightarrow>
                     (case (if (case redirect_check of None \<Rightarrow> False | Some r \<Rightarrow> strcmp r ''<'' = 0)
                            then redirect_slot (tokens_get_token ts (line_size - 1)) Read_mode 0 w1
                            else Return 0 w1) of
                        Halt h w2 \<Rightarrow> Halt h w2
                      | Return std_in w2 \<Rightarrow> Return (redirect_check, run_in_fg, std_out, std_in) w2)))"

text \<open>Lines 250 to 259.\<close>

definition main_dispatch :: "tokens \<Rightarrow> string option \<Rightarrow> int \<Rightarrow> world \<Rightarrow> int result" where
  "main_dispatch ts redirect_check run_in_fg w =
     (let fundex = lookup (tokens_get_token ts 0)
      in if fundex \<ge> 0 then call_cmd (fun (cmd_table ! nat fundex)) ts w
         else exec_func ts redirect_check run_in_fg w)"

text \<open>Lines 261 and 262.\<close>

definition main_restore :: "int \<Rightarrow> int \<Rightarrow> world \<Rightarrow> world" where
  "main_restore std_out std_in w = dup2 std_in 0 (dup2 std_out 1 w)"

text \<open>One iteration of the read loop, from the tokens of the line to the restored descriptors.\<close>

definition main_body :: "tokens \<Rightarrow> world \<Rightarrow> unit result" where
  "main_body ts w =
     (case main_redirect ts w of
        Halt h w1 \<Rightarrow> Halt h w1
      | Return (redirect_check, run_in_fg, std_out, std_in) w1 \<Rightarrow>
          (case main_dispatch ts redirect_check run_in_fg w1 of
             Halt h w2 \<Rightarrow> Halt h w2
           | Return r w2 \<Rightarrow> Return () (main_restore std_out std_in w2)))"

text \<open>
  The read loop over the lines \<open>fgets\<close> delivers, each already split by the tokenizer.
  At the end of input \<open>main\<close> returns 0. \<open>++line_num\<close> is an \<open>int\<close> increment.
\<close>

fun main_loop :: "int \<Rightarrow> tokens list \<Rightarrow> world \<Rightarrow> halt \<times> world" where
  "main_loop line_num [] w = (Exited 0, w)"
| "main_loop line_num (ts # rest) w =
     (case main_body ts w of
        Halt h w1 \<Rightarrow> (h, w1)
      | Return u w1 \<Rightarrow>
          if shell_is_interactive w1
          then (if line_num = INT_MAX then (Undefined ''signed overflow'', w1)
                else main_loop (line_num + 1) rest (emit (Prompt (fds w1 1) (line_num + 1)) w1))
          else main_loop line_num rest w1)"

definition main :: "tokens list \<Rightarrow> world \<Rightarrow> (halt \<times> world) option" where
  "main lines w =
     (case init_shell w of
        None \<Rightarrow> None
      | Some w0 \<Rightarrow>
          Some (main_loop 0 lines
                  (if shell_is_interactive w0 then emit (Prompt (fds w0 1) 0) w0 else w0)))"

subsection \<open>Notions used to state the properties\<close>

fun is_Execv :: "event \<Rightarrow> bool" where
  "is_Execv (Execv p a r) = True"
| "is_Execv e = False"

text \<open>The child after lines 112 to 121: in its own process group, the eight dispositions reset.\<close>

definition child_start :: "world \<Rightarrow> world" where
  "child_start w = signals SIG_DFL (setpgid (getpid w) (getpid w) w)"

text \<open>One round of the loop of \<open>cmd_wait\<close>: a call of \<open>wait(NULL)\<close>, then the decrement.\<close>

definition wait_step :: "world \<Rightarrow> world" where
  "wait_step w = (snd (wait_any w))\<lparr>num_bprocesses := num_bprocesses (snd (wait_any w)) - 1\<rparr>"

text \<open>The events a run added to the trace of the world it started from.\<close>

definition added :: "world \<Rightarrow> world \<Rightarrow> event list" where
  "added w w' = drop (length (trace w)) (trace w')"

fun is_Print :: "event \<Rightarrow> bool" where
  "is_Print (Print f s) = True"
| "is_Print e = False"

text \<open>
  A world to run examples in, as \<open>init_shell\<close> leaves it: an interactive shell with
  pid 100 that leads its process group and holds the terminal, descriptors 0, 1 and 2 on
  the terminal, room for eight descriptors, \<open>PATH=/usr/bin:/bin\<close>, the programs
  \<open>/bin/ls\<close>, \<open>/bin/sleep\<close> and \<open>/bin/echo\<close>, the directory \<open>/tmp\<close>, and no
  directory \<open>/no-such-dir\<close>.
\<close>

definition example_world :: world where
  "example_world =
     \<lparr>shell_is_interactive = True, shell_terminal = 0, shell_pgid = 100, num_bprocesses = 0,
      pid = 100, pgrp = 100, errno = ENONE, cwd = ''/home'',
      fds = (\<lambda>n. if n = 0 \<or> n = 1 \<or> n = 2 then Some Terminal else None), fd_limit = 8,
      children = [], tty_fg = 100, disposition = (\<lambda>s. SIG_DFL),
      environ_PATH = Some ''/usr/bin:/bin'', trace = [],
      fork_results = [], wait_order = [], resume_fg = [],
      can_exec = (\<lambda>p. if p = ''/bin/ls'' \<or> p = ''/bin/sleep'' \<or> p = ''/bin/echo'' then None
                       else Some ENOENT),
      can_open = (\<lambda>n m. if take 13 n = ''/no-such-dir/'' then Some ENOENT else None),
      can_chdir = (\<lambda>c p. if p = ''/tmp'' then Inr ''/tmp'' else Inl ENOENT),
      getcwd_error = None\<rparr>"

section \<open>Properties\<close>

subsection \<open>Strings, sizes and tokens\<close>

lemma strcmp_eq0: "strcmp a b = 0 \<longleftrightarrow> a = b"
  by (induction a b rule: strcmp.induct) auto

text \<open>A line is read into a buffer of 4096 bytes, so it has fewer than 4096 tokens.\<close>

lemma unat_of_nat_small: "n < 4096 \<Longrightarrow> unat (of_nat n :: 64 word) = n"
  by (simp add: unat_of_nat take_bit_nat_eq_self)

lemma length_eq_1: "n < 4096 \<Longrightarrow> (of_nat n :: 64 word) = 1 \<longleftrightarrow> n = 1"
  using unat_of_nat_small [of n] by (metis unat_of_nat_small of_nat_1 unsigned_1 One_nat_def)

lemma get_length_1: "length ts < 4096 \<Longrightarrow> tokens_get_length ts = 1 \<longleftrightarrow> length ts = 1"
  by (simp add: tokens_get_length_def length_eq_1)

lemma get_token_0: "tokens_get_token (t # ts) 0 = Some t"
  by (simp add: tokens_get_token_def)

lemma get_token_1: "tokens_get_token (c # p # ts) 1 = Some p"
  by (simp add: tokens_get_token_def)




lemma length_minus_1:
  assumes "length ts < 4096" "1 \<le> length ts"
  shows "unat (tokens_get_length ts - 1) = length ts - 1"
proof -
  have "(of_nat (length ts) :: 64 word) - 1 = of_nat (length ts - 1)"
    using assms(2) by (simp add: of_nat_diff)
  then show ?thesis
    using assms(1) by (simp add: tokens_get_length_def unat_of_nat_small)
qed

lemma unat_minus_1: "unat (- 1 :: 64 word) = 18446744073709551615"
  by (simp add: unsigned_minus_1_eq_mask mask_eq_exp_minus_1)

text \<open>The two tokens \<open>main\<close> looks at: the last one and the one before it.\<close>

lemma last_token:
  assumes "length ts < 4096"
  shows "tokens_get_token ts (tokens_get_length ts - 1) = (if ts = [] then None else Some (last ts))"
proof (cases "ts = []")
  case True
  then show ?thesis by (simp add: tokens_get_token_def tokens_get_length_def)
next
  case False
  then have "1 \<le> length ts" by (cases ts) auto
  from length_minus_1 [OF assms this] False show ?thesis
    by (simp add: tokens_get_token_def last_conv_nth)
qed




subsection \<open>The PATH search and the child\<close>

lemma full_path_overflows: "full_path tok path = Inl ''strcpy past the end of token_cpy''"
  by (simp add: full_path_def strcpy_def)

lemma path_loop_Some:
  "path_loop (Some (tok, rest)) path av w = Halt (Undefined ''strcpy past the end of token_cpy'') w"
  by (simp add: full_path_overflows)

lemma signals_eq:
  "signals h w =
     w\<lparr>errno := EINVAL,
       disposition := (disposition w)(SIGINT := h, SIGQUIT := h, SIGTERM := h, SIGTSTP := h,
                                      SIGCONT := h, SIGTTIN := h, SIGTTOU := h),
       trace := trace w @ map (\<lambda>s. Signal s h) job_signals\<rparr>"
  by (simp add: signals_def job_signals_def signal_def emit_def)

lemma child_start_eq:
  "child_start w =
     w\<lparr>pgrp := pid w, errno := EINVAL,
       disposition := (disposition w)(SIGINT := SIG_DFL, SIGQUIT := SIG_DFL, SIGTERM := SIG_DFL,
          SIGTSTP := SIG_DFL, SIGCONT := SIG_DFL, SIGTTIN := SIG_DFL, SIGTTOU := SIG_DFL),
       trace := trace w @ Setpgid (pid w) (pid w) # map (\<lambda>s. Signal s SIG_DFL) job_signals\<rparr>"
  by (simp add: child_start_def signals_eq setpgid_def getpid_def emit_def)

text \<open>The child's side, case by case.\<close>

lemma exec_child_no_token:
  "tokens_get_token ts 0 = None \<Longrightarrow>
   exec_child ts rc w = Halt (Undefined ''strncpy from a null pointer'') (child_start w)"
  by (simp add: exec_child_def child_start_def Let_def)

lemma exec_child_absolute:
  "tokens_get_token ts 0 = Some p \<Longrightarrow> take 1 p = ''/'' \<Longrightarrow>
   exec_child ts rc w =
     (case can_exec w p of
        None \<Rightarrow> Halt (Replaced p (build_argv ts rc))
                  (emit (Execv p (build_argv ts rc) None) (child_start w))
      | Some e \<Rightarrow>
          Return 1 ((child_start w)\<lparr>errno := e,
             trace := trace (child_start w) @
               [Execv p (build_argv ts rc) (Some e),
                Print (fds w 1) (''execv error: '' @ strerror e @ ''\<newline>'')]\<rparr>))"
  by (simp add: exec_child_def Let_def strcmp_eq0 execv_def fprintf_stdout_def emit_def
      child_start_def [symmetric] child_start_eq split: option.splits)

lemma exec_child_no_PATH:
  "tokens_get_token ts 0 = Some p \<Longrightarrow> take 1 p \<noteq> ''/'' \<Longrightarrow> environ_PATH w = None \<Longrightarrow>
   exec_child ts rc w = Halt (Undefined ''strtok on a null pointer'') (child_start w)"
  by (simp add: exec_child_def Let_def strcmp_eq0 child_start_def [symmetric] child_start_eq)

lemma exec_child_relative:
  assumes "tokens_get_token ts 0 = Some p" "take 1 p \<noteq> ''/''" "environ_PATH w = Some ep"
  shows "exec_child ts rc w =
     (case strtok ep '':'' of
        None \<Rightarrow>
          Return 1 ((child_start w)\<lparr>environ_PATH := Some (strtok_cut ep '':''),
             trace := trace (child_start w) @
               [Print (fds w 1) (''execv error: '' @ strerror EINVAL @ ''\<newline>'')]\<rparr>)
      | Some tr \<Rightarrow>
          Halt (Undefined ''strcpy past the end of token_cpy'')
            ((child_start w)\<lparr>environ_PATH := Some (strtok_cut ep '':'')\<rparr>))"
proof (cases "strtok ep '':''")
  case None
  with assms show ?thesis
    by (simp add: exec_child_def Let_def strcmp_eq0 child_start_def [symmetric] child_start_eq
        fprintf_stdout_def emit_def)
next
  case (Some tr)
  obtain tok rest where "tr = (tok, rest)" by (cases tr)
  with Some assms show ?thesis
    by (simp add: exec_child_def Let_def strcmp_eq0 child_start_def [symmetric] child_start_eq
        full_path_overflows)
qed



lemma exec_func_parent:
  "fork_results w = In_parent c # rs \<Longrightarrow> c \<noteq> 0 \<Longrightarrow> c \<noteq> - 1 \<Longrightarrow>
   exec_func ts rc fg w =
     exec_parent c fg (emit (Fork c) (w\<lparr>children := children w @ [c], fork_results := rs\<rparr>))"
  by (simp add: exec_func_def fork_def)


lemma wait_any_frame:
  assumes "wait_any w = (r, w')"
  shows "trace w' = trace w @ [Wait r]" "num_bprocesses w' = num_bprocesses w" "fds w' = fds w"
    "pid w' = pid w" "tty_fg w' = tty_fg w" "shell_is_interactive w' = shell_is_interactive w"
    "cwd w' = cwd w"
  using assms
  by (auto simp: wait_any_def Let_def emit_def split: list.splits)









subsection \<open>Running the shell on concrete lines\<close>

text \<open>The definitions to unfold when a run in the example world is evaluated.\<close>

lemmas run_defs =
  main_body_def main_redirect_def main_dispatch_def main_restore_def redirect_slot_def
  signals_eq job_signals_def tokens_get_length_def tokens_get_token_def unat_minus_1
  lookup_def cmd_table_def call_cmd_def cmd_pwd_def cmd_help_def cmd_exit_def cmd_wait_def
  exec_func_def exec_child_def exec_parent_def build_argv_def
  fork_def execv_def wait_any_def tcsetpgrp_def fopen_def dup_def dup2_def getcwd_def chdir_def
  lowest_free_def setpgid_def getpid_def strtok_def strtok_cut_def strcpy_def strcat_def
  full_path_def fprintf_stdout_def emit_def
  Let_def INT_MAX_def added_def

subsection \<open>Builtin dispatch\<close>

text \<open>
  C5. \<open>lookup\<close> returns the index of the first entry of the table whose name is equal
  to the first token, as strings (byte for byte, so case matters), and \<open>- 1\<close> when
  there is none; \<open>main\<close> then calls that entry's function, and the launcher when there
  is none. The names are \<open>?\<close>, \<open>exit\<close>, \<open>pwd\<close>, \<open>cd\<close>, \<open>wait\<close>; the token
  \<open>Exit\<close> matches none of them and is launched as a program.
\<close>

theorem builtin_dispatch_exact:
  "lookup (Some t) =
     (case filter (\<lambda>i. cmd (cmd_table ! i) = t) [0..<length cmd_table] of
        [] \<Rightarrow> - 1
      | i # js \<Rightarrow> int i)
   \<and> main_dispatch (t # ts) rc fg w =
     (case filter (\<lambda>d. cmd d = t) cmd_table of
        [] \<Rightarrow> exec_func (t # ts) rc fg w
      | d # ds \<Rightarrow> call_cmd (fun d) (t # ts) w)
   \<and> map cmd cmd_table = [''?'', ''exit'', ''pwd'', ''cd'', ''wait'']
   \<and> lookup (Some ''Exit'') = - 1
   \<and> main_dispatch (''Exit'' # ts) rc fg w = exec_func (''Exit'' # ts) rc fg w"
proof -
  have a: "lookup (Some t) =
     (case filter (\<lambda>i. cmd (cmd_table ! i) = t) [0..<length cmd_table] of
        [] \<Rightarrow> - 1
      | i # js \<Rightarrow> int i)"
    by (auto simp: lookup_def cmd_table_def strcmp_eq0 upt_rec)
  have b: "main_dispatch (t # ts) rc fg w =
     (case filter (\<lambda>d. cmd d = t) cmd_table of
        [] \<Rightarrow> exec_func (t # ts) rc fg w
      | d # ds \<Rightarrow> call_cmd (fun d) (t # ts) w)" for t
    by (auto simp: main_dispatch_def get_token_0 lookup_def cmd_table_def strcmp_eq0)
  have c: "map cmd cmd_table = [''?'', ''exit'', ''pwd'', ''cd'', ''wait'']"
    by (simp add: cmd_table_def)
  have d: "lookup (Some ''Exit'') = - 1"
    by (simp add: lookup_def cmd_table_def)
  have e: "main_dispatch (''Exit'' # ts) rc fg w = exec_func (''Exit'' # ts) rc fg w"
    by (simp add: b cmd_table_def)
  from a b c d e show ?thesis by blast
qed

subsection \<open>The \<open>cd\<close> builtin\<close>

text \<open>
  C6, as the code has it. \<open>cd\<close> needs at least one argument and uses the first. With
  no argument it prints \<open>cd error: no arguments\<close> and changes nothing else. With one
  or more, it calls \<open>chdir\<close> on the first: when that fails, it prints \<open>chdir error:\<close>
  followed by the text of the error, and only \<open>errno\<close> and the trace differ afterwards,
  so the working directory is the same; when it succeeds, the working directory is the
  new one and nothing is printed. In every case \<open>cmd_cd\<close> returns to its caller.
\<close>

theorem cmd_cd_contract:
  "cmd_cd [c] w = Return 0 (w\<lparr>trace := trace w @ [Print (fds w 1) ''cd error: no arguments\<newline>'']\<rparr>)
   \<and> (length rest < 4094 \<and> can_chdir w (cwd w) p = Inl e \<longrightarrow>
        cmd_cd (c # p # rest) w =
          Return 1 (w\<lparr>errno := e,
                      trace := trace w @ [Chdir (Some p) (Some e),
                                          Print (fds w 1) (''chdir error: '' @ strerror e @ ''\<newline>'')]\<rparr>))
   \<and> (length rest < 4094 \<and> can_chdir w (cwd w) p = Inr d \<longrightarrow>
        cmd_cd (c # p # rest) w = Return 1 (w\<lparr>cwd := d, trace := trace w @ [Chdir (Some p) None]\<rparr>))
   \<and> is_Return (cmd_cd ts w)"
proof -
  have one: "tokens_get_length [c] = 1"
    by (simp add: tokens_get_length_def)
  have two: "length rest < 4094 \<Longrightarrow> tokens_get_length (c # p # rest) \<noteq> 1"
    using get_length_1 [of "c # p # rest"] by simp
  have a: "cmd_cd [c] w = Return 0 (w\<lparr>trace := trace w @ [Print (fds w 1) ''cd error: no arguments\<newline>'']\<rparr>)"
    by (simp add: cmd_cd_def one fprintf_stdout_def emit_def)
  have b: "length rest < 4094 \<and> can_chdir w (cwd w) p = Inl e \<longrightarrow>
        cmd_cd (c # p # rest) w =
          Return 1 (w\<lparr>errno := e,
                      trace := trace w @ [Chdir (Some p) (Some e),
                                          Print (fds w 1) (''chdir error: '' @ strerror e @ ''\<newline>'')]\<rparr>)"
    using two by (simp add: cmd_cd_def Let_def get_token_1 chdir_def fprintf_stdout_def emit_def)
  have c: "length rest < 4094 \<and> can_chdir w (cwd w) p = Inr d \<longrightarrow>
        cmd_cd (c # p # rest) w = Return 1 (w\<lparr>cwd := d, trace := trace w @ [Chdir (Some p) None]\<rparr>)"
    using two by (simp add: cmd_cd_def Let_def get_token_1 chdir_def fprintf_stdout_def emit_def)
  have d: "is_Return (cmd_cd ts w)"
    by (simp add: cmd_cd_def Let_def chdir_def split: option.splits sum.splits prod.splits)
  from a b c d show ?thesis by blast
qed

text \<open>In the example world: \<open>cd /does-not-exist\<close> fails with ENOENT, \<open>cd /tmp\<close> succeeds.\<close>

theorem cmd_cd_contract_witness:
  "cmd_cd [''cd'', ''/does-not-exist''] example_world =
     Return 1 (example_world\<lparr>errno := ENOENT,
        trace := [Chdir (Some ''/does-not-exist'') (Some ENOENT),
                  Print (Some Terminal) ''chdir error: No such file or directory\<newline>'']\<rparr>)
   \<and> cmd_cd [''cd'', ''/tmp''] example_world =
     Return 1 (example_world\<lparr>cwd := ''/tmp'', trace := [Chdir (Some ''/tmp'') None]\<rparr>)"
  using cmd_cd_contract [of "''cd''" example_world "[]" "''/does-not-exist''" ENOENT "''/tmp''" "[]"]
    cmd_cd_contract [of "''cd''" example_world "[]" "''/tmp''" ENOENT "''/tmp''" "[]"]
  by (simp add: example_world_def)

text \<open>
  \<open>cd\<close> does not require exactly one argument: \<open>cd /tmp extra\<close> is carried out as
  \<open>cd /tmp\<close>, with no message.
\<close>

theorem cmd_cd_extra_argument_counterexample:
  "cmd_cd [''cd'', ''/tmp'', ''extra''] example_world =
     Return 1 (example_world\<lparr>cwd := ''/tmp'', trace := [Chdir (Some ''/tmp'') None]\<rparr>)"
  by (simp add: cmd_cd_def tokens_get_length_def tokens_get_token_def chdir_def emit_def example_world_def)

subsection \<open>Resolving the executable\<close>

text \<open>
  C1, what the code does. A name that begins with \<open>/\<close> is executed as it is, with one
  \<open>execv\<close> call: \<open>/bin/ls\<close>. For any other name, with a directory in \<open>PATH\<close>, the
  first round of the search copies the directory into \<open>token_cpy\<close>, an array of
  \<open>strlen(tokens)\<close> bytes, with \<open>strcpy\<close>, which writes one byte more: the behaviour
  is undefined before any \<open>execv\<close> call is made. With \<open>PATH=/usr/bin:/bin\<close> the
  command \<open>ls\<close> ends there, and neither \<open>/usr/bin/ls\<close> nor \<open>/bin/ls\<close> is attempted
  by a defined run.
\<close>

theorem path_search_writes_past_array:
  "\<not> is_Return (exec_func [''ls''] None 1 (example_world\<lparr>fork_results := [In_child 101]\<rparr>))
   \<and> reason (exec_func [''ls''] None 1 (example_world\<lparr>fork_results := [In_child 101]\<rparr>))
       = Undefined ''strcpy past the end of token_cpy''
   \<and> filter is_Execv (trace (after (exec_func [''ls''] None 1
         (example_world\<lparr>fork_results := [In_child 101]\<rparr>)))) = []
   \<and> full_path ''/usr/bin'' ''ls'' = Inl ''strcpy past the end of token_cpy''
   \<and> filter is_Execv (trace (after (exec_func [''/bin/ls''] None 1
         (example_world\<lparr>fork_results := [In_child 101]\<rparr>))))
       = [Execv ''/bin/ls'' [Some ''/bin/ls'', None] None]"
  by (simp add: example_world_def run_defs upt_rec)

subsection \<open>The arguments of the launched program\<close>



subsection \<open>The child after a failed search\<close>

text \<open>
  C2, what the code does. The child with pid 101 is given the absolute name
  \<open>/bin/doesnotexist123\<close>; \<open>execv\<close> fails; \<open>exec_func\<close> prints the error and returns
  to \<open>main\<close>. The child then reads the next line, \<open>pwd\<close>, and runs it: the process
  that prints the working directory has pid 101, and it stops only at the end of the
  input. The search through \<open>PATH\<close> ends in the same way when it makes no attempt: with
  an empty \<open>PATH\<close> the child prints the error for \<open>doesnotexist123\<close> and runs \<open>pwd\<close>.
\<close>

theorem failed_search_child_runs_on:
  "is_Return (exec_func [''/bin/doesnotexist123''] None 1 (example_world\<lparr>fork_results := [In_child 101]\<rparr>))
   \<and> fst (main_loop 0 [[''/bin/doesnotexist123''], [''pwd'']] (example_world\<lparr>fork_results := [In_child 101]\<rparr>))
       = Exited 0
   \<and> pid (snd (main_loop 0 [[''/bin/doesnotexist123''], [''pwd'']] (example_world\<lparr>fork_results := [In_child 101]\<rparr>)))
       = 101
   \<and> filter is_Print (trace (snd (main_loop 0 [[''/bin/doesnotexist123''], [''pwd'']]
          (example_world\<lparr>fork_results := [In_child 101]\<rparr>))))
       = [Print (Some Terminal) ''execv error: No such file or directory\<newline>'',
          Print (Some Terminal) ''/home\<newline>'']
   \<and> pid (snd (main_loop 0 [[''doesnotexist123''], [''pwd'']]
          (example_world\<lparr>environ_PATH := Some [], fork_results := [In_child 101]\<rparr>)))
       = 101
   \<and> filter is_Print (trace (snd (main_loop 0 [[''doesnotexist123''], [''pwd'']]
          (example_world\<lparr>environ_PATH := Some [], fork_results := [In_child 101]\<rparr>))))
       = [Print (Some Terminal) ''execv error: Invalid argument\<newline>'',
          Print (Some Terminal) ''/home\<newline>'']"
  by (simp add: example_world_def run_defs)

subsection \<open>A redirection whose file cannot be opened\<close>

text \<open>
  C7, what the code does. For \<open>ls > /no-such-dir/out\<close> the call of \<open>fopen\<close> returns
  the null pointer; the code goes on to \<open>dup(1)\<close> and then hands the null pointer to
  \<open>fileno\<close>. Nothing is printed.
\<close>

theorem failed_open_dereferenced:
  "reason (main_body [''ls'', ''>'', ''/no-such-dir/out''] example_world)
     = Undefined ''fileno of a null pointer''
   \<and> drop 8 (trace (after (main_body [''ls'', ''>'', ''/no-such-dir/out''] example_world)))
     = [Fopen ''/no-such-dir/out'' Write_mode None, Dup 1 3]
   \<and> filter is_Print (trace (after (main_body [''ls'', ''>'', ''/no-such-dir/out''] example_world))) = []"
  by (simp add: example_world_def run_defs upt_rec)

subsection \<open>The parent of a foreground command\<close>




subsection \<open>What each operation leaves alone\<close>

lemma wait_step_frame:
  "num_bprocesses (wait_step w) = num_bprocesses w - 1" "fds (wait_step w) = fds w"
  "trace (wait_step w) = trace w @ [Wait (fst (wait_any w))]"
  by (cases "wait_any w"; simp add: wait_step_def wait_any_frame)+

lemma wait_loop_funpow: "wait_loop w = (wait_step ^^ nat (num_bprocesses w)) w"
proof (induction w rule: wait_loop.induct)
  case (1 w)
  show ?case
  proof (cases "0 < num_bprocesses w")
    case True
    obtain r w1 where wa: "wait_any w = (r, w1)" by (cases "wait_any w")
    have ws: "w1\<lparr>num_bprocesses := num_bprocesses w1 - 1\<rparr> = wait_step w"
      by (simp add: wait_step_def wa)
    have n: "nat (num_bprocesses w) = Suc (nat (num_bprocesses (wait_step w)))"
      using True by (simp add: wait_step_frame)
    have "wait_loop w = wait_loop (wait_step w)"
      using True wa ws by (subst wait_loop.simps) simp
    also have "\<dots> = (wait_step ^^ nat (num_bprocesses (wait_step w))) (wait_step w)"
      using "1.IH" [OF True wa [symmetric]] ws by simp
    also have "\<dots> = (wait_step ^^ nat (num_bprocesses w)) w"
      unfolding n by (simp add: funpow_swap1)
    finally show ?thesis .
  next
    case False
    then show ?thesis by (subst wait_loop.simps) simp
  qed
qed

lemma wait_steps_frame:
  "num_bprocesses ((wait_step ^^ n) w) = num_bprocesses w - int n"
  "fds ((wait_step ^^ n) w) = fds w"
  "\<exists>rs. trace ((wait_step ^^ n) w) = trace w @ map Wait rs \<and> length rs = n"
proof (induction n)
  case 0
  show "num_bprocesses ((wait_step ^^ 0) w) = num_bprocesses w - int 0"
    and "fds ((wait_step ^^ 0) w) = fds w"
    and "\<exists>rs. trace ((wait_step ^^ 0) w) = trace w @ map Wait rs \<and> length rs = 0"
    by simp_all
next
  case (Suc n)
  show "num_bprocesses ((wait_step ^^ Suc n) w) = num_bprocesses w - int (Suc n)"
    using Suc(1) by (simp add: wait_step_frame)
  show "fds ((wait_step ^^ Suc n) w) = fds w"
    using Suc(2) by (simp add: wait_step_frame)
  from Suc(3) obtain rs where rs: "trace ((wait_step ^^ n) w) = trace w @ map Wait rs" "length rs = n"
    by blast
  then have "trace ((wait_step ^^ Suc n) w) = trace w @ map Wait (rs @ [fst (wait_any ((wait_step ^^ n) w))])"
    by (simp add: wait_step_frame)
  with rs(2) show "\<exists>rs. trace ((wait_step ^^ Suc n) w) = trace w @ map Wait rs \<and> length rs = Suc n"
    by (metis length_append_singleton)
qed

lemma wait_loop_frame:
  "num_bprocesses (wait_loop w) = (if 0 < num_bprocesses w then 0 else num_bprocesses w)"
  "fds (wait_loop w) = fds w"
  by (simp_all add: wait_loop_funpow wait_steps_frame)

lemma cmd_help_frame:
  "num_bprocesses (after (cmd_help ts w)) = num_bprocesses w" "fds (after (cmd_help ts w)) = fds w"
  by (simp_all add: cmd_help_def cmd_table_def fprintf_stdout_def emit_def)

lemma cmd_pwd_frame:
  "num_bprocesses (after (cmd_pwd ts w)) = num_bprocesses w" "fds (after (cmd_pwd ts w)) = fds w"
  by (simp_all add: cmd_pwd_def getcwd_def fprintf_stdout_def emit_def split: option.splits)

lemma cmd_cd_frame:
  "num_bprocesses (after (cmd_cd ts w)) = num_bprocesses w" "fds (after (cmd_cd ts w)) = fds w"
  by (simp_all add: cmd_cd_def Let_def chdir_def fprintf_stdout_def emit_def
      split: option.splits sum.splits)

lemma call_cmd_frame:
  "fds (after (call_cmd f ts w)) = fds w"
  "num_bprocesses (after (call_cmd f ts w)) =
     (if f = Cmd_wait \<and> 0 < num_bprocesses w then 0 else num_bprocesses w)"
  by (cases f; simp add: call_cmd_def cmd_help_frame cmd_pwd_frame cmd_cd_frame cmd_exit_def
      cmd_wait_def wait_loop_frame)+

lemma exec_child_frame:
  "num_bprocesses (after (exec_child ts rc w)) = num_bprocesses w"
  "fds (after (exec_child ts rc w)) = fds w"
proof -
  have "num_bprocesses (after (exec_child ts rc w)) = num_bprocesses w \<and>
        fds (after (exec_child ts rc w)) = fds w"
  proof (cases "tokens_get_token ts 0")
    case None
    then show ?thesis by (simp add: exec_child_no_token child_start_eq)
  next
    case (Some p)
    show ?thesis
    proof (cases "take 1 p = ''/''")
      case True
      show ?thesis
        unfolding exec_child_absolute [OF Some True]
        by (cases "can_exec w p") (simp_all add: child_start_eq emit_def)
    next
      case False
      show ?thesis
      proof (cases "environ_PATH w")
        case None
        then show ?thesis
          by (simp add: exec_child_no_PATH [OF Some False] child_start_eq)
      next
        case (Some ep)
        show ?thesis
          unfolding exec_child_relative [OF \<open>tokens_get_token ts 0 = Some p\<close> False Some]
          by (simp add: child_start_eq split: option.splits)
      qed
    qed
  qed
  then show "num_bprocesses (after (exec_child ts rc w)) = num_bprocesses w"
    and "fds (after (exec_child ts rc w)) = fds w"
    by simp_all
qed

lemma exec_parent_frame:
  "fds (after (exec_parent c fg w)) = fds w"
  "num_bprocesses (after (exec_parent c fg w)) =
     (if fg = 0 \<and> num_bprocesses w \<noteq> INT_MAX then num_bprocesses w + 1 else num_bprocesses w)"
proof -
  obtain r w2 where wa: "wait_any (tcsetpgrp 0 c w) = (r, w2)"
    by (cases "wait_any (tcsetpgrp 0 c w)")
  note fr = wait_any_frame [OF wa]
  show "fds (after (exec_parent c fg w)) = fds w"
    using wa fr by (simp add: exec_parent_def Let_def tcsetpgrp_def emit_def)
  show "num_bprocesses (after (exec_parent c fg w)) =
     (if fg = 0 \<and> num_bprocesses w \<noteq> INT_MAX then num_bprocesses w + 1 else num_bprocesses w)"
    using wa fr by (simp add: exec_parent_def Let_def tcsetpgrp_def emit_def)
qed

lemma fork_frame:
  assumes "fork w = (p, w1)"
  shows "fds w1 = fds w" "num_bprocesses w1 = num_bprocesses w"
    "p \<noteq> - 1 \<and> p \<noteq> 0 \<longleftrightarrow> (\<exists>c rs. fork_results w = In_parent c # rs \<and> c \<noteq> 0 \<and> c \<noteq> - 1)"
  using assms
  by (auto simp: fork_def emit_def split: list.splits fork_outcome.splits)

text \<open>The lines on which \<open>exec_func\<close> is the parent of a new child.\<close>

lemma exec_func_frame:
  "fds (after (exec_func ts rc fg w)) = fds w"
  "num_bprocesses (after (exec_func ts rc fg w)) =
     (if fg = 0 \<and> num_bprocesses w \<noteq> INT_MAX \<and>
         (\<exists>c rs. fork_results w = In_parent c # rs \<and> c \<noteq> 0 \<and> c \<noteq> - 1)
      then num_bprocesses w + 1 else num_bprocesses w)"
proof -
  obtain p w1 where f: "fork w = (p, w1)" by (cases "fork w")
  note ff = fork_frame [OF f]
  show "fds (after (exec_func ts rc fg w)) = fds w"
    using ff(1) by (simp add: exec_func_def f exec_child_frame exec_parent_frame fprintf_stdout_def emit_def)
  show "num_bprocesses (after (exec_func ts rc fg w)) =
     (if fg = 0 \<and> num_bprocesses w \<noteq> INT_MAX \<and>
         (\<exists>c rs. fork_results w = In_parent c # rs \<and> c \<noteq> 0 \<and> c \<noteq> - 1)
      then num_bprocesses w + 1 else num_bprocesses w)"
    using ff(2,3)
    by (auto simp: exec_func_def f exec_child_frame exec_parent_frame fprintf_stdout_def emit_def)
qed

lemma dup2_fds:
  "fds (dup2 old new w) = (if fds w old = None then fds w else (fds w)(new := fds w old))"
  "num_bprocesses (dup2 old new w) = num_bprocesses w"
  "\<exists>r. trace (dup2 old new w) = trace w @ [Dup2 old new r]"
  by (simp_all add: dup2_def emit_def)

lemma dup2_same: "fds (dup2 d d w) = fds w"
  by (auto simp: dup2_fds)

lemma lowest_free_None: "lowest_free w = Some n \<Longrightarrow> fds w (int n) = None"
  by (auto simp: lowest_free_def find_Some_iff)

lemma redirect_slot_frame:
  "num_bprocesses (after (redirect_slot fn m slot w)) = num_bprocesses w"
  by (simp add: redirect_slot_def fopen_def dup_def dup2_def emit_def
      split: option.splits prod.splits if_splits)

lemma redirect_slot_saved:
  assumes "redirect_slot fn m slot w = Return saved w'" and "fds w slot \<noteq> None" and "saved \<noteq> - 1"
  shows "fds w' saved = fds w slot"
    and "\<forall>d. d \<noteq> slot \<and> fds w d \<noteq> None \<longrightarrow> fds w' d = fds w d"
proof -
  from assms(1) obtain name where fn: "fn = Some name"
    by (cases fn) (simp_all add: redirect_slot_def)
  obtain fl w1 where fo: "fopen name m w = (fl, w1)" by (cases "fopen name m w")
  obtain s w2 where du: "dup slot w1 = (s, w2)" by (cases "dup slot w1")
  from assms(1) fn fo du obtain fd where fl: "fl = Some fd"
    and res: "saved = s" "w' = dup2 fd slot w2"
    by (cases fl) (simp_all add: redirect_slot_def)
  from fo fl obtain n where n: "lowest_free w = Some n" "fd = int n"
    and f1: "fds w1 = (fds w)(fd := Some (Opened name m))"
    by (auto simp: fopen_def emit_def split: option.splits)
  have fdfree: "fds w fd = None" using n lowest_free_None by simp
  with assms(2) have fs: "fd \<noteq> slot" by auto
  then have s1: "fds w1 slot = fds w slot" by (simp add: f1)
  from du assms(2,3) res(1) s1 obtain k where k: "lowest_free w1 = Some k" "s = int k"
    and f2: "fds w2 = (fds w1)(s := fds w1 slot)"
    by (auto simp: dup_def emit_def split: option.splits if_splits)
  have sfree: "fds w1 s = None" using k lowest_free_None by simp
  then have ss: "s \<noteq> slot" and sf: "s \<noteq> fd" using s1 assms(2) f1 by auto
  have f3: "fds w' = (fds w2)(slot := fds w2 fd)"
    using sf by (simp add: res(2) dup2_fds f2 f1)
  show "fds w' saved = fds w slot"
    using ss by (simp add: f3 res(1) f2 s1)
  show "\<forall>d. d \<noteq> slot \<and> fds w d \<noteq> None \<longrightarrow> fds w' d = fds w d"
    using fdfree sfree by (auto simp: f3 f2 f1)
qed

lemma signals_frame:
  "fds (signals h w) = fds w" "num_bprocesses (signals h w) = num_bprocesses w"
  by (simp_all add: signals_eq)

lemma main_redirect_cases:
  assumes "main_redirect ts w = Return (rc, fg, so, si) w1"
  shows "if rc = Some ''>''
         then redirect_slot (tokens_get_token ts (tokens_get_length ts - 1)) Write_mode 1 (signals SIG_IGN w)
                = Return so w1 \<and> si = 0
         else if rc = Some ''<''
         then redirect_slot (tokens_get_token ts (tokens_get_length ts - 1)) Read_mode 0 (signals SIG_IGN w)
                = Return si w1 \<and> so = 1
         else so = 1 \<and> si = 0 \<and> w1 = signals SIG_IGN w"
  using assms
  by (cases "tokens_get_token ts (tokens_get_length ts - 2)")
     (auto simp: main_redirect_def Let_def strcmp_eq0 split: option.splits result.splits if_splits)

lemma main_redirect_frame:
  "num_bprocesses (after (main_redirect ts w)) = num_bprocesses w"
proof -
  let ?w0 = "signals SIG_IGN w"
  let ?fn = "tokens_get_token ts (tokens_get_length ts - 1)"
  let ?rc = "tokens_get_token ts (tokens_get_length ts - 2)"
  let ?A = "if (case ?rc of None \<Rightarrow> False | Some r \<Rightarrow> strcmp r ''>'' = 0)
            then redirect_slot ?fn Write_mode 1 ?w0 else Return 1 ?w0"
  let ?B = "\<lambda>w1. if (case ?rc of None \<Rightarrow> False | Some r \<Rightarrow> strcmp r ''<'' = 0)
            then redirect_slot ?fn Read_mode 0 w1 else Return 0 w1"
  have A: "num_bprocesses (after ?A) = num_bprocesses w"
    by (simp add: redirect_slot_frame signals_frame)
  have B: "num_bprocesses (after (?B w1)) = num_bprocesses w1" for w1
    by (simp add: redirect_slot_frame)
  show ?thesis
  proof (cases ?fn)
    case None
    then show ?thesis by (simp add: main_redirect_def Let_def signals_frame)
  next
    case (Some b)
    show ?thesis
    proof (cases ?A)
      case (Halt h w1)
      with A have "num_bprocesses w1 = num_bprocesses w" by simp
      with Halt Some show ?thesis by (simp add: main_redirect_def Let_def)
    next
      case (Return so w1)
      with A have n1: "num_bprocesses w1 = num_bprocesses w" by simp
      show ?thesis
      proof (cases "?B w1")
        case (Halt h w2)
        with B [of w1] n1 have "num_bprocesses w2 = num_bprocesses w" by simp
        with Halt Return Some show ?thesis by (simp add: main_redirect_def Let_def)
      next
        case (Return si w2)
        with B [of w1] n1 have "num_bprocesses w2 = num_bprocesses w" by simp
        with Return \<open>?A = Return so w1\<close> Some show ?thesis by (simp add: main_redirect_def Let_def)
      qed
    qed
  qed
qed

lemma main_dispatch_frame:
  "fds (after (main_dispatch ts rc fg w)) = fds w"
  "0 \<le> num_bprocesses w \<Longrightarrow> 0 \<le> num_bprocesses (after (main_dispatch ts rc fg w))"
  by (simp_all add: main_dispatch_def Let_def call_cmd_frame exec_func_frame)

lemma main_body_after:
  "num_bprocesses (after (main_body ts w)) =
     (case main_redirect ts w of
        Halt h w1 \<Rightarrow> num_bprocesses w
      | Return x w1 \<Rightarrow> num_bprocesses (after (main_dispatch ts (fst x) (fst (snd x)) w1)))"
proof (cases "main_redirect ts w")
  case (Halt h w1)
  with main_redirect_frame [of ts w] show ?thesis by (simp add: main_body_def)
next
  case (Return x w1)
  obtain rc fg so si where x: "x = (rc, fg, so, si)" by (cases x)
  show ?thesis
    by (cases "main_dispatch ts rc fg w1")
       (simp_all add: main_body_def Return x main_restore_def dup2_fds)
qed

lemma main_body_nonneg:
  assumes "0 \<le> num_bprocesses w"
  shows "0 \<le> num_bprocesses (after (main_body ts w))"
proof (cases "main_redirect ts w")
  case (Halt h w1)
  with assms show ?thesis by (simp add: main_body_after)
next
  case (Return x w1)
  with main_redirect_frame [of ts w] assms have "0 \<le> num_bprocesses w1" by simp
  from main_dispatch_frame(2) [OF this] Return show ?thesis by (simp add: main_body_after)
qed

lemma main_loop_nonneg:
  "0 \<le> num_bprocesses w \<Longrightarrow> 0 \<le> num_bprocesses (snd (main_loop n ls w))"
proof (induction ls arbitrary: n w)
  case Nil
  then show ?case by simp
next
  case (Cons ts ls)
  from main_body_nonneg [OF Cons.prems, of ts]
  show ?case
    by (cases "main_body ts w") (auto simp: emit_def intro!: Cons.IH)
qed

lemma foreground_loop_num:
  "foreground_loop gs w = Some w' \<Longrightarrow> num_bprocesses w' = num_bprocesses w"
  by (induction gs w rule: foreground_loop.induct)
     (auto simp: Let_def emit_def getpgrp_def split: if_splits)

lemma init_shell_zero: "init_shell w = Some w0 \<Longrightarrow> num_bprocesses w0 = 0"
  by (auto simp: init_shell_def Let_def tcsetpgrp_def emit_def split: if_splits option.splits)

subsection \<open>The background counter and the \<open>wait\<close> builtin\<close>

text \<open>
  C4. With a counter that is not negative, \<open>wait\<close> runs the round "one
  \<open>wait(NULL)\<close>, then one decrement" exactly as many times as the counter says and
  returns with the counter at zero; the calls of \<open>wait(NULL)\<close> are all it adds to the
  trace. A background spawn (\<open>run_in_fg\<close> is 0 and \<open>fork\<close> returned a child) adds
  exactly one to the counter. Nothing else changes it: not the launcher in any other
  case, not another builtin, not the redirection before the command nor the restoring
  after it.
\<close>

theorem background_counter:
  "(0 \<le> num_bprocesses w \<longrightarrow>
      cmd_wait ts w = Return 1 ((wait_step ^^ nat (num_bprocesses w)) w)
      \<and> num_bprocesses (after (cmd_wait ts w)) = 0
      \<and> (\<exists>rs. added w (after (cmd_wait ts w)) = map Wait rs \<and> length rs = nat (num_bprocesses w)))
   \<and> (fg = 0 \<and> fork_results w = In_parent c # rs \<and> c \<noteq> 0 \<and> c \<noteq> - 1 \<and> num_bprocesses w < INT_MAX \<longrightarrow>
      is_Return (exec_func ts rc fg w)
      \<and> num_bprocesses (after (exec_func ts rc fg w)) = num_bprocesses w + 1)
   \<and> (\<not> (fg = 0 \<and> (\<exists>c rs. fork_results w = In_parent c # rs \<and> c \<noteq> 0 \<and> c \<noteq> - 1)) \<longrightarrow>
      num_bprocesses (after (exec_func ts rc fg w)) = num_bprocesses w)
   \<and> (f \<noteq> Cmd_wait \<longrightarrow> num_bprocesses (after (call_cmd f ts w)) = num_bprocesses w)
   \<and> num_bprocesses (after (main_redirect ts w)) = num_bprocesses w
   \<and> num_bprocesses (main_restore so si w) = num_bprocesses w"
proof -
  have a: "0 \<le> num_bprocesses w \<longrightarrow>
      cmd_wait ts w = Return 1 ((wait_step ^^ nat (num_bprocesses w)) w)
      \<and> num_bprocesses (after (cmd_wait ts w)) = 0
      \<and> (\<exists>rs. added w (after (cmd_wait ts w)) = map Wait rs \<and> length rs = nat (num_bprocesses w))"
  proof
    assume nn: "0 \<le> num_bprocesses w"
    obtain rs where rs: "trace ((wait_step ^^ nat (num_bprocesses w)) w) = trace w @ map Wait rs"
      "length rs = nat (num_bprocesses w)"
      using wait_steps_frame(3) by blast
    have "added w (after (cmd_wait ts w)) = map Wait rs"
      using rs(1) by (simp add: cmd_wait_def wait_loop_funpow added_def)
    with rs(2) nn show "cmd_wait ts w = Return 1 ((wait_step ^^ nat (num_bprocesses w)) w)
      \<and> num_bprocesses (after (cmd_wait ts w)) = 0
      \<and> (\<exists>rs. added w (after (cmd_wait ts w)) = map Wait rs \<and> length rs = nat (num_bprocesses w))"
      by (auto simp: cmd_wait_def wait_loop_funpow wait_steps_frame)
  qed
  have b: "fg = 0 \<and> fork_results w = In_parent c # rs \<and> c \<noteq> 0 \<and> c \<noteq> - 1 \<and> num_bprocesses w < INT_MAX \<longrightarrow>
      is_Return (exec_func ts rc fg w)
      \<and> num_bprocesses (after (exec_func ts rc fg w)) = num_bprocesses w + 1"
    by (auto simp: exec_func_frame exec_func_parent exec_parent_def emit_def)
  have c: "\<not> (fg = 0 \<and> (\<exists>c rs. fork_results w = In_parent c # rs \<and> c \<noteq> 0 \<and> c \<noteq> - 1)) \<longrightarrow>
      num_bprocesses (after (exec_func ts rc fg w)) = num_bprocesses w"
    by (simp add: exec_func_frame)
  have d: "f \<noteq> Cmd_wait \<longrightarrow> num_bprocesses (after (call_cmd f ts w)) = num_bprocesses w"
    by (simp add: call_cmd_frame)
  have e: "num_bprocesses (after (main_redirect ts w)) = num_bprocesses w"
    by (rule main_redirect_frame)
  have f: "num_bprocesses (main_restore so si w) = num_bprocesses w"
    by (simp add: main_restore_def dup2_fds)
  from a b c d e f show ?thesis by blast
qed

text \<open>
  Two counted jobs: \<open>wait\<close> calls \<open>wait(NULL)\<close> twice and leaves 0. The line
  \<open>sleep 1 &\<close> leaves 1, \<open>pwd\<close> leaves the counter alone.
\<close>

theorem background_counter_witness:
  "num_bprocesses (after (cmd_wait [''wait''] (example_world\<lparr>num_bprocesses := 2, children := [101, 102]\<rparr>))) = 0
   \<and> length (added (example_world\<lparr>num_bprocesses := 2, children := [101, 102]\<rparr>)
        (after (cmd_wait [''wait''] (example_world\<lparr>num_bprocesses := 2, children := [101, 102]\<rparr>)))) = 2
   \<and> num_bprocesses (after (exec_func [''sleep'', ''1'', ''&''] (Some ''1'') 0
        (example_world\<lparr>fork_results := [In_parent 101]\<rparr>))) = 1
   \<and> num_bprocesses (after (call_cmd Cmd_pwd [''sleep'', ''1'', ''&''] (example_world\<lparr>fork_results := [In_parent 101]\<rparr>))) = 0"
  using background_counter [where w = "example_world\<lparr>num_bprocesses := 2, children := [101, 102]\<rparr>"
      and ts = "[''wait'']" and f = Cmd_pwd and fg = 1 and c = 0 and rs = "[]" and rc = None and so = 1 and si = 0]
    background_counter [where w = "example_world\<lparr>fork_results := [In_parent 101]\<rparr>"
      and ts = "[''sleep'', ''1'', ''&'']" and rc = "Some ''1''" and fg = 0 and c = 101 and rs = "[]"
      and f = Cmd_pwd and so = 1 and si = 0]
  by (auto simp: example_world_def INT_MAX_def)

subsection \<open>The counter is never negative\<close>

text \<open>
  C10. \<open>init_shell\<close> sets the counter to zero. From a counter that is not negative,
  the \<open>wait\<close> builtin, every other builtin, the launcher and a whole iteration of the
  read loop end with a counter that is not negative: \<open>wait\<close> decrements only while
  the counter is positive and stops at zero, the launcher only increments (the increment
  of \<open>INT_MAX\<close>, undefined in C, ends the run with the counter as it was). So the
  counter is not negative in the state in which any run of \<open>main\<close> ends.
\<close>

theorem counter_never_negative:
  "(init_shell w = Some w0 \<longrightarrow> num_bprocesses w0 = 0)
   \<and> (0 \<le> num_bprocesses w \<longrightarrow>
        0 \<le> num_bprocesses (after (cmd_wait ts w))
        \<and> 0 \<le> num_bprocesses (after (call_cmd f ts w))
        \<and> 0 \<le> num_bprocesses (after (exec_func ts rc fg w))
        \<and> 0 \<le> num_bprocesses (after (main_body ts w)))
   \<and> num_bprocesses (wait_loop w) = (if 0 < num_bprocesses w then 0 else num_bprocesses w)
   \<and> (main lines w = Some (h, w') \<longrightarrow> 0 \<le> num_bprocesses w')"
proof -
  have a: "init_shell w = Some w0 \<longrightarrow> num_bprocesses w0 = 0"
    using init_shell_zero by blast
  have b: "0 \<le> num_bprocesses w \<longrightarrow>
        0 \<le> num_bprocesses (after (cmd_wait ts w))
        \<and> 0 \<le> num_bprocesses (after (call_cmd f ts w))
        \<and> 0 \<le> num_bprocesses (after (exec_func ts rc fg w))
        \<and> 0 \<le> num_bprocesses (after (main_body ts w))"
    by (simp add: cmd_wait_def wait_loop_frame call_cmd_frame exec_func_frame main_body_nonneg)
  have c: "num_bprocesses (wait_loop w) = (if 0 < num_bprocesses w then 0 else num_bprocesses w)"
    by (rule wait_loop_frame)
  have d: "main lines w = Some (h, w') \<longrightarrow> 0 \<le> num_bprocesses w'"
  proof
    assume m: "main lines w = Some (h, w')"
    then obtain w1 where i: "init_shell w = Some w1" by (auto simp: main_def split: option.splits)
    let ?w2 = "if shell_is_interactive w1 then emit (Prompt (fds w1 1) 0) w1 else w1"
    have "0 \<le> num_bprocesses ?w2" using init_shell_zero [OF i] by (simp add: emit_def)
    from main_loop_nonneg [OF this, of 0 lines] m i show "0 \<le> num_bprocesses w'"
      by (simp add: main_def)
  qed
  from a b c d show ?thesis by blast
qed

text \<open>The run \<open>sleep 1 &\<close>, \<open>wait\<close>, \<open>wait\<close> ends with the counter at zero.\<close>

theorem counter_never_negative_witness:
  "num_bprocesses (snd (the (main [[''sleep'', ''1'', ''&''], [''wait''], [''wait'']]
       (example_world\<lparr>fork_results := [In_parent 101]\<rparr>)))) = 0
   \<and> 0 \<le> num_bprocesses (after (main_body [''sleep'', ''1'', ''&''] (example_world\<lparr>fork_results := [In_parent 101]\<rparr>)))"
  using counter_never_negative [where w = "example_world\<lparr>fork_results := [In_parent 101]\<rparr>"
      and ts = "[''sleep'', ''1'', ''&'']" and f = Cmd_wait and rc = "Some ''1''" and fg = 0
      and w0 = "the (init_shell (example_world\<lparr>fork_results := [In_parent 101]\<rparr>))"
      and h = "Exited 0"
      and w' = "snd (the (main [[''sleep'', ''1'', ''&''], [''wait''], [''wait'']]
       (example_world\<lparr>fork_results := [In_parent 101]\<rparr>)))"
      and lines = "[[''sleep'', ''1'', ''&''], [''wait''], [''wait'']]"]
  by (simp add: example_world_def main_def init_shell_def isatty_def getpgrp_def run_defs wait_loop.simps)

subsection \<open>Restoring descriptors 1 and 0\<close>

text \<open>
  When the command of a line has returned, the iteration ends with \<open>dup2(std_out, 1)\<close>
  and \<open>dup2(std_in, 0)\<close>, whatever the line was. Without a redirection the saved values
  are 1 and 0 and the descriptor table is what it was before the line. With descriptors
  0 and 1 open before the line and both saved values descriptors (\<open>dup\<close> did not return
  \<open>- 1\<close>), slots 1 and 0 again refer to what they referred to before the line.
\<close>

lemma restore_when_saved:
  assumes "main_redirect ts w = Return (rc, fg, so, si) w1"
    and "main_dispatch ts rc fg w1 = Return v w2"
  shows "main_body ts w = Return () (dup2 si 0 (dup2 so 1 w2))
     \<and> (\<exists>r1 r2. trace (after (main_body ts w)) = trace w2 @ [Dup2 so 1 r1, Dup2 si 0 r2])
     \<and> (rc \<noteq> Some ''>'' \<and> rc \<noteq> Some ''<'' \<longrightarrow>
          so = 1 \<and> si = 0 \<and> fds (after (main_body ts w)) = fds w)
     \<and> (fds w 0 \<noteq> None \<and> fds w 1 \<noteq> None \<and> so \<noteq> - 1 \<and> si \<noteq> - 1 \<longrightarrow>
          fds (after (main_body ts w)) 1 = fds w 1
          \<and> fds (after (main_body ts w)) 0 = fds w 0
          \<and> last (trace (fprintf_stdout s (after (main_body ts w)))) = Print (fds w 1) s)"
proof -
  let ?w0 = "signals SIG_IGN w"
  let ?fn = "tokens_get_token ts (tokens_get_length ts - 1)"
  have mb: "main_body ts w = Return () (dup2 si 0 (dup2 so 1 w2))"
    by (simp add: main_body_def assms main_restore_def)
  have f2: "fds w2 = fds w1"
    using main_dispatch_frame(1) [of ts rc fg w1] assms(2) by simp
  obtain r1 where r1: "trace (dup2 so 1 w2) = trace w2 @ [Dup2 so 1 r1]"
    using dup2_fds(3) by blast
  obtain r2 where r2: "trace (dup2 si 0 (dup2 so 1 w2)) = trace (dup2 so 1 w2) @ [Dup2 si 0 r2]"
    using dup2_fds(3) by blast
  have tr: "\<exists>r1 r2. trace (after (main_body ts w)) = trace w2 @ [Dup2 so 1 r1, Dup2 si 0 r2]"
    using r1 r2 by (simp add: mb)
  note mc = main_redirect_cases [OF assms(1)]
  have plain: "rc \<noteq> Some ''>'' \<and> rc \<noteq> Some ''<'' \<longrightarrow>
          so = 1 \<and> si = 0 \<and> fds (after (main_body ts w)) = fds w"
  proof
    assume "rc \<noteq> Some ''>'' \<and> rc \<noteq> Some ''<''"
    with mc have "so = 1" "si = 0" "w1 = ?w0" by simp_all
    then show "so = 1 \<and> si = 0 \<and> fds (after (main_body ts w)) = fds w"
      by (simp add: mb dup2_same f2 signals_frame)
  qed
  have slots: "fds (after (main_body ts w)) 1 = fds w 1 \<and> fds (after (main_body ts w)) 0 = fds w 0"
    if stdin_open: "fds w 0 \<noteq> None" and stdout_open: "fds w 1 \<noteq> None" and so: "so \<noteq> - 1" and si: "si \<noteq> - 1"
  proof -
    consider (out) "rc = Some ''>''" | (inp) "rc \<noteq> Some ''>''" "rc = Some ''<''"
      | (none) "rc \<noteq> Some ''>''" "rc \<noteq> Some ''<''"
      by blast
    then show ?thesis
    proof cases
      case out
      with mc have rs: "redirect_slot ?fn Write_mode 1 ?w0 = Return so w1" and si0: "si = 0"
        by simp_all
      have o1: "fds ?w0 1 \<noteq> None" using stdout_open by (simp add: signals_frame)
      from redirect_slot_saved [OF rs o1 so] stdin_open
      have a: "fds w1 so = fds w 1" and b: "fds w1 0 = fds w 0"
        by (simp_all add: signals_frame)
      have "fds (dup2 si 0 (dup2 so 1 w2)) = (if fds w1 so = None then fds w1 else (fds w1)(1 := fds w1 so))"
        by (simp only: si0 dup2_same dup2_fds(1) [of so 1] f2)
      then show ?thesis
        using a b stdout_open by (auto simp: mb)
    next
      case inp
      with mc have rs: "redirect_slot ?fn Read_mode 0 ?w0 = Return si w1" and so1: "so = 1"
        by simp_all
      have o0: "fds ?w0 0 \<noteq> None" using stdin_open by (simp add: signals_frame)
      from redirect_slot_saved [OF rs o0 si] stdout_open
      have a: "fds w1 si = fds w 0" and b: "fds w1 1 = fds w 1"
        by (simp_all add: signals_frame)
      have c: "fds (dup2 so 1 w2) = fds w1"
        by (simp add: so1 dup2_same f2)
      have "fds (dup2 si 0 (dup2 so 1 w2)) = (if fds w1 si = None then fds w1 else (fds w1)(0 := fds w1 si))"
        by (simp only: dup2_fds(1) [of si 0] c)
      then show ?thesis
        using a b stdin_open by (auto simp: mb)
    next
      case none
      with plain show ?thesis by simp
    qed
  qed
  have restored: "fds w 0 \<noteq> None \<and> fds w 1 \<noteq> None \<and> so \<noteq> - 1 \<and> si \<noteq> - 1 \<longrightarrow>
          fds (after (main_body ts w)) 1 = fds w 1
          \<and> fds (after (main_body ts w)) 0 = fds w 0
          \<and> last (trace (fprintf_stdout s (after (main_body ts w)))) = Print (fds w 1) s"
    using slots by (simp add: fprintf_stdout_def emit_def)
  from mb tr plain restored show ?thesis by blast
qed

text \<open>
  C9, what the code does. Neither the file opened for a redirection nor the saved
  duplicate is ever closed, and the result of \<open>dup\<close> is not tested. In the example
  world, with room for eight descriptors, \<open>pwd > a\<close> and \<open>pwd > b\<close> use up
  descriptors 3 to 6. For \<open>pwd > c\<close> the file takes descriptor 7 and \<open>dup(1)\<close> fails:
  \<open>std_out\<close> is \<open>- 1\<close>, the restoring \<open>dup2(- 1, 1)\<close> fails, and slot 1 stays on the
  file. The plain \<open>pwd\<close> that follows prints into the file \<open>c\<close>.
\<close>

theorem restore_fails_after_leak:
  "fst (main_loop 0 [[''pwd'', ''>'', ''a''], [''pwd'', ''>'', ''b''], [''pwd'', ''>'', ''c''], [''pwd'']]
         example_world) = Exited 0
   \<and> fds (snd (main_loop 0 [[''pwd'', ''>'', ''a''], [''pwd'', ''>'', ''b''], [''pwd'', ''>'', ''c''], [''pwd'']]
         example_world)) 1 = Some (Opened ''c'' Write_mode)
   \<and> filter is_Print (trace (snd (main_loop 0
         [[''pwd'', ''>'', ''a''], [''pwd'', ''>'', ''b''], [''pwd'', ''>'', ''c''], [''pwd'']]
         example_world)))
       = [Print (Some (Opened ''a'' Write_mode)) ''/home\<newline>'',
          Print (Some (Opened ''b'' Write_mode)) ''/home\<newline>'',
          Print (Some (Opened ''c'' Write_mode)) ''/home\<newline>'',
          Print (Some (Opened ''c'' Write_mode)) ''/home\<newline>'']
   \<and> val (main_redirect [''pwd'', ''>'', ''c'']
         (snd (main_loop 0 [[''pwd'', ''>'', ''a''], [''pwd'', ''>'', ''b'']] example_world)))
       = (Some ''>'', 61, - 1, 0)"
  by (simp add: example_world_def run_defs upt_rec)

end
